theory Spec2Isabelle
  imports Main "HOL-Library.Char_ord" "HOL-Library.List_Lexorder" "HOL-Library.AList"
    "HOL-Library.Sublist" "HOL-Library.Word"
begin

section \<open>Reading, humanizing and writing flow documents (yaml\_flows\_io.py)\<close>

text \<open>
  A shallow embedding of \<^verbatim>\<open>rasa/shared/core/flows/yaml_flows_io.py\<close>: the error
  humanizer \<^verbatim>\<open>YAMLFlowsReader.humanize_flow_error\<close> with its nested helpers, the
  reader (\<^verbatim>\<open>read_from_string\<close>, \<^verbatim>\<open>read_from_file\<close>) and the writer
  (\<^verbatim>\<open>YamlFlowsWriter.dumps\<close>).
\<close>

subsection \<open>Python values\<close>

text \<open>
  The values found in a parsed YAML document and in a JSON schema: \<^verbatim>\<open>None\<close>, booleans,
  unbounded integers, floating point numbers, strings, lists and dictionaries with string
  keys. A \<^verbatim>\<open>float\<close> is the 64 bits of its IEEE 754 double. A dictionary is an
  association list in insertion order, as a Python \<^verbatim>\<open>dict\<close> is; its keys are distinct.
  A string is a list of bytes (UTF-8), whose lexicographic order is the order of the code
  points that Python compares.
\<close>

datatype pyval =
    PNone
  | PBool bool
  | PInt int
  | PFloat "64 word"
  | PStr string
  | PList "pyval list"
  | PDict "(string \<times> pyval) list"

type_synonym pydict = "(string \<times> pyval) list"

text \<open>The builtin exceptions that the code of this file can raise by itself.\<close>

datatype py_error = TypeError | AttributeError | KeyError | OtherError string

text \<open>\<^verbatim>\<open>d.get(key, default)\<close> on a dictionary.\<close>

definition dict_get :: "pydict \<Rightarrow> string \<Rightarrow> pyval \<Rightarrow> pyval" where
  "dict_get d k dflt = (case map_of d k of Some v \<Rightarrow> v | None \<Rightarrow> dflt)"

text \<open>
  Truth value of an object, as \<^verbatim>\<open>if name := ...\<close> tests it. A float is false when it
  is zero, of either sign.
\<close>

fun truthy :: "pyval \<Rightarrow> bool" where
  "truthy PNone = False"
| "truthy (PBool b) = b"
| "truthy (PInt i) = (i \<noteq> 0)"
| "truthy (PFloat w) = (w \<noteq> 0 \<and> w \<noteq> 0x8000000000000000)"
| "truthy (PStr s) = (s \<noteq> [])"
| "truthy (PList xs) = (xs \<noteq> [])"
| "truthy (PDict kvs) = (kvs \<noteq> [])"

text \<open>Decimal rendering of an integer, as \<^verbatim>\<open>str\<close> gives it.\<close>

fun digits :: "nat \<Rightarrow> string" where
  "digits n =
     (if n < 10 then [''0123456789'' ! n]
      else digits (n div 10) @ [''0123456789'' ! (n mod 10)])"

declare digits.simps [simp del]

definition str_int :: "int \<Rightarrow> string" where
  "str_int i = (if i < 0 then ''-'' @ digits (nat (- i)) else digits (nat i))"

text \<open>
  Reading a decimal numeral, to say what the rendering of an integer is: the digits of a
  natural number without a leading zero (the single digit \<^verbatim>\<open>0\<close> apart), with a minus
  sign in front for a negative integer. No two numerals have the same value.
\<close>

definition digit_value :: "char \<Rightarrow> nat option" where
  "digit_value c =
     (if CHR ''0'' \<le> c \<and> c \<le> CHR ''9'' then Some (of_char c - 48) else None)"

fun digits_value :: "nat \<Rightarrow> string \<Rightarrow> nat option" where
  "digits_value acc [] = Some acc"
| "digits_value acc (c # cs) =
     (case digit_value c of
        None \<Rightarrow> None
      | Some d \<Rightarrow> digits_value (10 * acc + d) cs)"

definition numeral_value :: "string \<Rightarrow> nat option" where
  "numeral_value s =
     (if s = [] \<or> (hd s = CHR ''0'' \<and> length s > 1) then None else digits_value 0 s)"

definition decimal_value :: "string \<Rightarrow> int option" where
  "decimal_value s =
     (case s of
        [] \<Rightarrow> None
      | c # cs \<Rightarrow>
          (if c = CHR ''-''
           then (case numeral_value cs of
                   None \<Rightarrow> None
                 | Some n \<Rightarrow> (if n = 0 then None else Some (- int n)))
           else map_option int (numeral_value s)))"

text \<open>
  \<^verbatim>\<open>str(v)\<close>, also what an f-string \<^verbatim>\<open>{v}\<close> inserts. A string is inserted as it is.
  For a float, a list or a dictionary \<^verbatim>\<open>str\<close> is Python's \<^verbatim>\<open>repr\<close>, which is not
  part of this file: it is the parameter \<open>r\<close>.
\<close>

fun py_str :: "(pyval \<Rightarrow> string) \<Rightarrow> pyval \<Rightarrow> string" where
  "py_str r PNone = ''None''"
| "py_str r (PBool b) = (if b then ''True'' else ''False'')"
| "py_str r (PInt i) = str_int i"
| "py_str r (PFloat w) = r (PFloat w)"
| "py_str r (PStr s) = s"
| "py_str r (PList xs) = r (PList xs)"
| "py_str r (PDict kvs) = r (PDict kvs)"

text \<open>\<^verbatim>\<open>sep.join(xs)\<close> on a list of strings.\<close>

fun join :: "string \<Rightarrow> string list \<Rightarrow> string" where
  "join sep [] = []"
| "join sep [x] = x"
| "join sep (x # y # ys) = x @ sep @ join sep (y # ys)"

text \<open>
  Iterating over a value with \<^verbatim>\<open>for x in v\<close>: a list gives its elements, a dictionary
  its keys, a string its characters; anything else is not iterable.
\<close>

fun py_iter :: "pyval \<Rightarrow> py_error + pyval list" where
  "py_iter (PList xs) = Inr xs"
| "py_iter (PDict kvs) = Inr (map (\<lambda>kv. PStr (fst kv)) kvs)"
| "py_iter (PStr s) = Inr (map (\<lambda>c. PStr [c]) s)"
| "py_iter v = Inl TypeError"

fun is_str :: "pyval \<Rightarrow> bool" where
  "is_str (PStr s) = True"
| "is_str v = False"

fun the_str :: "pyval \<Rightarrow> string" where
  "the_str (PStr s) = s"
| "the_str v = []"

text \<open>
  \<^verbatim>\<open>" or ".join(sorted(expected))\<close>. On strings \<^verbatim>\<open>sorted\<close> orders by code points and
  \<^verbatim>\<open>join\<close> concatenates. If some element is not a string, \<^verbatim>\<open>sorted\<close> raises
  \<^verbatim>\<open>TypeError\<close> on the first comparison it cannot make, and if it can make them all
  \<^verbatim>\<open>join\<close> raises \<^verbatim>\<open>TypeError\<close> on the element that is not a string.
\<close>

definition join_sorted :: "string \<Rightarrow> pyval list \<Rightarrow> py_error + string" where
  "join_sorted sep expected =
     (if list_all is_str expected then Inr (join sep (sort (map the_str expected)))
      else Inl TypeError)"

subsection \<open>The validation error\<close>

text \<open>
  The fields of \<^verbatim>\<open>jsonschema.ValidationError\<close> that the humanizer reads. A segment of
  \<^verbatim>\<open>absolute_path\<close> is a property name or a list index.
\<close>

datatype segment = Name string | Index int

fun str_segment :: "segment \<Rightarrow> string" where
  "str_segment (Name s) = s"
| "str_segment (Index i) = str_int i"

record validation_error =
  validator :: string
  absolute_path :: "segment list"
  schema :: pydict
  inst :: pyval
  message :: string
  json_path :: string

subsection \<open>humanize\_flow\_error\<close>

text \<open>
  \<^verbatim>\<open>faulty_property\<close>. It returns \<^verbatim>\<open>path[-2]\<close> as it is, a string or an integer, and
  \<^verbatim>\<open>str(path[-1])\<close> when the last segment is not an integer; the result is a segment.
\<close>

definition faulty_property :: "segment list \<Rightarrow> segment" where
  "faulty_property path =
     (if path = [] then Name ''schema''
      else (case last path of
              Index i \<Rightarrow> (if length path > 1 then path ! (length path - 2) else Name ''list'')
            | Name s \<Rightarrow> Name s))"

definition schema_name :: "pydict \<Rightarrow> pyval" where
  "schema_name sch = dict_get sch ''schema_name'' (dict_get sch ''type'' PNone)"

text \<open>
  The loop of \<^verbatim>\<open>schema_names\<close> over the elements of \<^verbatim>\<open>schemas\<close>, with the list
  \<^verbatim>\<open>names\<close> built so far. \<^verbatim>\<open>schema.get\<close> exists on a dictionary only.
\<close>

fun schema_names_loop :: "pyval list \<Rightarrow> pyval list \<Rightarrow> py_error + pyval list" where
  "schema_names_loop [] names = Inr names"
| "schema_names_loop (PDict d # schemas) names =
     (if truthy (schema_name d) then schema_names_loop schemas (names @ [schema_name d])
      else schema_names_loop schemas names)"
| "schema_names_loop (v # schemas) names = Inl AttributeError"

definition schema_names :: "pyval \<Rightarrow> py_error + pyval list" where
  "schema_names schemas =
     (case py_iter schemas of
        Inl e \<Rightarrow> Inl e
      | Inr xs \<Rightarrow> schema_names_loop xs [])"

definition expected_schema ::
  "(pyval \<Rightarrow> string) \<Rightarrow> validation_error \<Rightarrow> string \<Rightarrow> py_error + string" where
  "expected_schema r error schema_type =
     (case schema_names (dict_get (schema error) schema_type (PList [])) of
        Inl e \<Rightarrow> Inl e
      | Inr expected \<Rightarrow>
          (if expected \<noteq> [] then join_sorted '' or '' expected
           else Inr (py_str r (PDict (schema error)))))"

text \<open>
  The two f-strings of \<^verbatim>\<open>format_oneof_error\<close> and \<^verbatim>\<open>format_anyof_error\<close> are the
  same template; \<open>not_valid_message\<close> is that template.
\<close>

definition quote :: char where
  "quote = CHR 0x27"

definition backtick :: char where
  "backtick = CHR 0x60"

definition not_valid_message :: "segment \<Rightarrow> string \<Rightarrow> string" where
  "not_valid_message prop expected =
     ''Not a valid '' @ [quote] @ str_segment prop @ [quote] @ '' definition. ''
       @ ''Expected '' @ expected @ ''.''"

definition format_oneof_error ::
  "(pyval \<Rightarrow> string) \<Rightarrow> validation_error \<Rightarrow> py_error + string" where
  "format_oneof_error r error =
     (case expected_schema r error ''oneOf'' of
        Inl e \<Rightarrow> Inl e
      | Inr expected \<Rightarrow>
          Inr (not_valid_message (faulty_property (absolute_path error)) expected))"

definition format_anyof_error ::
  "(pyval \<Rightarrow> string) \<Rightarrow> validation_error \<Rightarrow> py_error + string" where
  "format_anyof_error r error =
     (case expected_schema r error ''anyOf'' of
        Inl e \<Rightarrow> Inl e
      | Inr expected \<Rightarrow>
          Inr (not_valid_message (faulty_property (absolute_path error)) expected))"

definition classify_instance :: "(pyval \<Rightarrow> string) \<Rightarrow> pyval \<Rightarrow> string" where
  "classify_instance r v =
     (case v of
        PDict kvs \<Rightarrow> ''a dictionary''
      | PList xs \<Rightarrow> ''a list''
      | _ \<Rightarrow> [backtick] @ py_str r v @ [backtick])"

definition format_type_error :: "(pyval \<Rightarrow> string) \<Rightarrow> validation_error \<Rightarrow> string" where
  "format_type_error r error =
     ''Found '' @ classify_instance r (inst error) @ '' but expected a ''
       @ py_str r (schema_name (schema error)) @ ''.''"

definition humanize_flow_error ::
  "(pyval \<Rightarrow> string) \<Rightarrow> validation_error \<Rightarrow> py_error + string" where
  "humanize_flow_error r error =
     (if validator error = ''oneOf'' then format_oneof_error r error
      else if validator error = ''anyOf'' then format_anyof_error r error
      else if validator error = ''type'' then Inr (format_type_error r error)
      else if validator error = ''additionalProperties'' then Inr (message error)
      else if validator error = ''required'' then Inr (message error)
      else Inr (''The flow at '' @ json_path error @ '' is not valid. ''
                  @ ''Please double check your flow definition.''))"

subsection \<open>Exceptions and collaborators of the reader and the writer\<close>

text \<open>
  The exceptions that cross \<^verbatim>\<open>read_from_file\<close>. \<^verbatim>\<open>YamlException\<close> is a subclass of
  \<^verbatim>\<open>RasaException\<close>; it carries its \<^verbatim>\<open>filename\<close>, the rest of its state (the
  underlying parser exception or the humanized message, kept here as a string) and the
  exception it was raised from, if any. \<open>RasaException\<close> stands for every other exception
  of the \<^verbatim>\<open>RasaException\<close> hierarchy, \<open>PyException\<close> for exceptions outside of it.
\<close>

datatype exn =
    YamlException "string option" string "exn option"
  | RasaException string
  | PyException py_error

text \<open>
  The functions that this file calls and that live in other modules: file reading
  (\<^verbatim>\<open>rasa.shared.utils.io.read_file\<close> with the default encoding), schema validation
  (\<^verbatim>\<open>validate_yaml_with_jsonschema\<close>, which receives the text, the schema file and the
  humanizer), the YAML parser and printer, \<^verbatim>\<open>FlowsList.from_json\<close>,
  \<^verbatim>\<open>FlowsList.validate\<close>, \<^verbatim>\<open>Flow.as_json\<close> and the attribute \<^verbatim>\<open>Flow.id\<close>. A
  validation returns \<open>None\<close> when it passes and the exception it raises otherwise.
  \<open>py_repr\<close> is Python's rendering of lists and dictionaries.
\<close>

record 'flow collaborators =
  py_repr :: "pyval \<Rightarrow> string"
  read_file :: "string \<Rightarrow> exn + string"
  validate_yaml_with_jsonschema ::
    "string \<Rightarrow> string \<Rightarrow> (validation_error \<Rightarrow> py_error + string) \<Rightarrow> exn option"
  read_yaml :: "string \<Rightarrow> exn + pyval"
  from_json :: "pyval \<Rightarrow> exn + 'flow list"
  validate :: "'flow list \<Rightarrow> exn option"
  as_json :: "'flow \<Rightarrow> pydict"
  flow_id :: "'flow \<Rightarrow> string"
  dump_obj_as_yaml_to_string :: "pyval \<Rightarrow> string"

definition FLOWS_SCHEMA_FILE :: string where
  "FLOWS_SCHEMA_FILE = ''shared/core/flows/flows_yaml_schema.json''"

definition KEY_FLOWS :: string where
  "KEY_FLOWS = ''flows''"

subsection \<open>read\_from\_string and read\_from\_file\<close>

text \<open>
  \<^verbatim>\<open>read_from_string\<close> returns the calls it made to its collaborators, in order, and
  its result: the flows, or the exception that ended it. \<^verbatim>\<open>yaml_content.get\<close> exists
  only when the parsed document is a dictionary.
\<close>

datatype 'flow call =
    SchemaValidation string
  | ReadYaml string
  | FromJson pyval
  | FlowsValidation "'flow list"

definition read_from_string ::
  "'flow collaborators \<Rightarrow> string \<Rightarrow> bool \<Rightarrow> 'flow call list \<times> (exn + 'flow list)" where
  "read_from_string env text skip_validation =
     (case (if \<not> skip_validation
            then validate_yaml_with_jsonschema env text FLOWS_SCHEMA_FILE
                   (humanize_flow_error (py_repr env))
            else None) of
        Some e \<Rightarrow> ([SchemaValidation text], Inl e)
      | None \<Rightarrow>
          (let log1 = (if \<not> skip_validation then [SchemaValidation text] else [])
                        @ [ReadYaml text]
           in case read_yaml env text of
                Inl e \<Rightarrow> (log1, Inl e)
              | Inr (PDict yaml_content) \<Rightarrow>
                  (let arg = dict_get yaml_content KEY_FLOWS (PDict []);
                       log2 = log1 @ [FromJson arg]
                   in case from_json env arg of
                        Inl e \<Rightarrow> (log2, Inl e)
                      | Inr flows \<Rightarrow>
                          (if \<not> skip_validation
                           then (case validate env flows of
                                   Some e \<Rightarrow> (log2 @ [FlowsValidation flows], Inl e)
                                 | None \<Rightarrow> (log2 @ [FlowsValidation flows], Inr flows))
                           else (log2, Inr flows)))
              | Inr other \<Rightarrow> (log1, Inl (PyException AttributeError))))"

text \<open>The body of the \<^verbatim>\<open>try\<close> block of \<^verbatim>\<open>read_from_file\<close>.\<close>

definition read_from_file_body ::
  "'flow collaborators \<Rightarrow> string \<Rightarrow> bool \<Rightarrow> exn + 'flow list" where
  "read_from_file_body env filename skip_validation =
     (case read_file env filename of
        Inl e \<Rightarrow> Inl e
      | Inr text \<Rightarrow> snd (read_from_string env text skip_validation))"

text \<open>
  The two handlers, in the source's order: a \<^verbatim>\<open>YamlException\<close> gets its
  \<^verbatim>\<open>filename\<close> set and is raised again; any other \<^verbatim>\<open>RasaException\<close> is the cause of a
  new \<^verbatim>\<open>YamlException(filename)\<close>; an exception that neither handler matches goes on.
\<close>

definition read_from_file ::
  "'flow collaborators \<Rightarrow> string \<Rightarrow> bool \<Rightarrow> exn + 'flow list" where
  "read_from_file env filename skip_validation =
     (case read_from_file_body env filename skip_validation of
        Inr flows \<Rightarrow> Inr flows
      | Inl (YamlException fn detail cause) \<Rightarrow>
          Inl (YamlException (Some filename) detail cause)
      | Inl (RasaException d) \<Rightarrow>
          Inl (YamlException (Some filename) [] (Some (RasaException d)))
      | Inl (PyException e) \<Rightarrow> Inl (PyException e))"

text \<open>
  The path that the outcome of a read carries: the \<^verbatim>\<open>filename\<close> of a
  \<^verbatim>\<open>YamlException\<close>, nothing for any other exception and for a result.
\<close>

definition error_filename :: "exn + 'a \<Rightarrow> string option" where
  "error_filename res =
     (case res of
        Inl (YamlException fn detail cause) \<Rightarrow> fn
      | _ \<Rightarrow> None)"

subsection \<open>YamlFlowsWriter.dumps\<close>

text \<open>
  The loop of \<^verbatim>\<open>dumps\<close> with the dictionary \<^verbatim>\<open>dump\<close> built so far.
  \<^verbatim>\<open>del dumped_flow["id"]\<close> raises \<^verbatim>\<open>KeyError\<close> when the key is missing;
  \<^verbatim>\<open>dump[flow.id] = dumped_flow\<close> replaces the value of a key that is there, in its
  place, and appends a new key otherwise.
\<close>

fun dumps_loop :: "'flow collaborators \<Rightarrow> 'flow list \<Rightarrow> pydict \<Rightarrow> py_error + pydict" where
  "dumps_loop env [] dump = Inr dump"
| "dumps_loop env (flow # flows) dump =
     (let dumped_flow = as_json env flow
      in if map_of dumped_flow ''id'' = None then Inl KeyError
         else dumps_loop env flows
                (AList.update (flow_id env flow) (PDict (AList.delete ''id'' dumped_flow)) dump))"

definition dumps :: "'flow collaborators \<Rightarrow> 'flow list \<Rightarrow> py_error + string" where
  "dumps env flows =
     (case dumps_loop env flows [] of
        Inl e \<Rightarrow> Inl e
      | Inr dump \<Rightarrow> Inr (dump_obj_as_yaml_to_string env (PDict [(KEY_FLOWS, PDict dump)])))"

subsection \<open>The written document, in the words of the specification\<close>

text \<open>
  The specification describes the writer's mapping as: for each document its mapping form,
  without the identifier field, under the document's identifier. \<open>has_id\<close> says that the
  mapping form of a flow has the identifier field that the writer removes.
\<close>

definition flow_body :: "'flow collaborators \<Rightarrow> 'flow \<Rightarrow> pyval" where
  "flow_body env flow = PDict (AList.delete ''id'' (as_json env flow))"


definition has_id :: "'flow collaborators \<Rightarrow> 'flow \<Rightarrow> bool" where
  "has_id env flow = (map_of (as_json env flow) ''id'' \<noteq> None)"



text \<open>One assignment \<^verbatim>\<open>dump[flow.id] = dumped_flow\<close> of the writer's loop.\<close>

definition assign_flow ::
  "'flow collaborators \<Rightarrow> 'flow \<Rightarrow> pydict \<Rightarrow> pydict" where
  "assign_flow env flow dump = AList.update (flow_id env flow) (flow_body env flow) dump"

section \<open>Example inputs\<close>

text \<open>A stand-in for Python's rendering of lists and dictionaries.\<close>

definition example_repr :: "pyval \<Rightarrow> string" where
  "example_repr v = ''{}''"

definition example_error :: validation_error where
  "example_error =
     \<lparr>validator = ''oneOf'',
      absolute_path = [Name ''flows'', Name ''x'', Name ''steps'', Index 0],
      schema = [(''oneOf'', PList [PDict [(''schema_name'', PStr ''link step'')],
                                  PDict [(''schema_name'', PStr ''action step'')],
                                  PDict [(''schema_name'', PStr ''action step'')]])],
      inst = PDict [(''foo'', PInt 1)],
      message = ''boom'',
      json_path = ''$.flows.x.steps[0]''\<rparr>"

definition unnamed_error :: validation_error where
  "unnamed_error =
     \<lparr>validator = ''anyOf'',
      absolute_path = [],
      schema = [(''anyOf'', PList [PDict [(''schema_name'', PStr [])], PDict []])],
      inst = PNone,
      message = ''boom'',
      json_path = ''$''\<rparr>"

definition mixed_error :: validation_error where
  "mixed_error =
     \<lparr>validator = ''anyOf'',
      absolute_path = [Name ''flows'', Name ''x'', Name ''steps'', Index 0, Name ''next''],
      schema = [(''anyOf'',
                 PList [PDict [(''required'', PList [PStr ''collect'']),
                               (''schema_name'', PStr ''collect step'')],
                        PDict [(''required'', PList [PStr ''noop'']),
                               (''schema_name'', PStr [])],
                        PDict [(''required'', PList [PStr ''action'']),
                               (''schema_name'', PStr ''action step'')]])],
      inst = PStr ''x'',
      message = ''boom'',
      json_path = ''$.flows.x.steps[0].next''\<rparr>"

definition type_error :: "pyval \<Rightarrow> validation_error" where
  "type_error v =
     \<lparr>validator = ''type'',
      absolute_path = [Name ''flows'', Name ''greet'', Name ''steps''],
      schema = [(''type'', PStr ''array''), (''schema_name'', PStr ''list of steps'')],
      inst = v,
      message = ''not of type array'',
      json_path = ''$.flows.greet.steps''\<rparr>"

text \<open>
  A small instance of the collaborators: a flow is its identifier with the rest of its
  mapping form; one file, \<^verbatim>\<open>flows.yml\<close>, holds the document \<open>example_doc\<close>.
\<close>

definition example_flows :: "(string \<times> pydict) list" where
  "example_flows = [(''greet'', [(''name'', PStr ''hi'')]), (''bye'', [])]"

definition example_doc :: pyval where
  "example_doc =
     PDict [(''flows'', PDict [(''greet'', PDict [(''name'', PStr ''hi'')]),
                              (''bye'', PDict [])])]"

definition example_text :: string where
  "example_text = ''flows: {greet: {name: hi}, bye: {}}''"

fun example_flow_of :: "string \<times> pyval \<Rightarrow> string \<times> pydict" where
  "example_flow_of (k, PDict body) = (k, body)"
| "example_flow_of (k, v) = (k, [])"

fun example_from_json :: "pyval \<Rightarrow> exn + (string \<times> pydict) list" where
  "example_from_json (PDict kvs) = Inr (map example_flow_of kvs)"
| "example_from_json v = Inl (RasaException ''flows must be a mapping'')"

definition example_env :: "(string \<times> pydict) collaborators" where
  "example_env =
     \<lparr>py_repr = example_repr,
      read_file = (\<lambda>filename.
        if filename = ''flows.yml'' then Inr example_text
        else if filename = ''broken.yml'' then Inr ''flows: [''
        else if filename = ''list.yml'' then Inr ''- a''
        else Inl (RasaException ''FileNotFoundException'')),
      validate_yaml_with_jsonschema = (\<lambda>text schema_file humanize_error.
        if text = example_text then None
        else Some (YamlException None ''schema validation failed'' None)),
      read_yaml = (\<lambda>text.
        if text = example_text then Inr example_doc
        else if text = ''- a'' then Inr (PList [PStr ''a''])
        else if text = ''{}'' then Inr (PDict [])
        else Inl (YamlException None ''syntax error'' None)),
      from_json = example_from_json,
      validate = (\<lambda>flows. if flows = [] then Some (RasaException ''no flows'') else None),
      as_json = (\<lambda>flow. (''id'', PStr (fst flow)) # snd flow),
      flow_id = fst,
      dump_obj_as_yaml_to_string = (\<lambda>v. if v = example_doc then example_text else ''{}'')\<rparr>"
















section \<open>Properties\<close>

subsection \<open>The names of the alternatives\<close>

lemma schema_names_loop_dicts:
  "schema_names_loop (map PDict alts) names =
     Inr (names @ filter truthy (map schema_name alts))"
  by (induction alts arbitrary: names) simp_all

lemma schema_names_dicts:
  "schema_names (PList (map PDict alts)) = Inr (filter truthy (map schema_name alts))"
  by (simp add: schema_names_def schema_names_loop_dicts)

lemma declared_names:
  assumes "map (\<lambda>d. map_of d ''schema_name'') alts = map (\<lambda>s. Some (PStr s)) names"
  shows "map schema_name alts = map PStr names"
  using assms
proof (induction alts arbitrary: names)
  case Nil
  then show ?case by simp
next
  case (Cons d alts)
  then obtain s ss where n: "names = s # ss" by (cases names) auto
  with Cons show ?case by (simp add: schema_name_def dict_get_def)
qed

lemma filter_truthy_strs:
  "filter truthy (map PStr names) = map PStr (filter (\<lambda>s. s \<noteq> []) names)"
  by (induction names) simp_all

lemma join_sorted_strs:
  "join_sorted sep (map PStr names) = Inr (join sep (sort names))"
proof -
  have "list_all is_str (map PStr names)" by (induction names) simp_all
  moreover have "map the_str (map PStr names) = names" by (induction names) simp_all
  ultimately show ?thesis by (simp add: join_sorted_def)
qed

lemma filter_truthy_none:
  "list_all (\<lambda>d. \<not> truthy (schema_name d)) alts \<Longrightarrow> filter truthy (map schema_name alts) = []"
  by (induction alts) simp_all

text \<open>
  C1, as stated: the alternative list is the sorted names with duplicates removed. It fails
  where two alternatives declare the same name: \<^verbatim>\<open>sorted\<close> keeps both.
\<close>

theorem expected_schema_dedup_counterexample:
  "expected_schema example_repr example_error ''oneOf''
     = Inr ''action step or action step or link step''
   \<and> expected_schema example_repr example_error ''oneOf''
       \<noteq> Inr (join '' or '' (sort (remdups [''link step'', ''action step'', ''action step''])))"
  by (simp add: example_error_def expected_schema_def schema_names_def dict_get_def
      schema_name_def join_sorted_def)

text \<open>
  C1, amended: when the value under the keyword is a list of dictionaries that all declare
  a string as \<^verbatim>\<open>schema_name\<close>, \<^verbatim>\<open>expected_schema\<close> returns the names among them
  that are not empty, sorted lexicographically, every duplicate kept, joined by
  \<^verbatim>\<open>" or "\<close>, and this is the alternative list of the humanized message; an
  alternative whose name is empty is left out. The same holds of the display names that
  count as true when some alternatives have no \<^verbatim>\<open>schema_name\<close>. When no alternative has
  a name that counts as true (also when the keyword is absent), the result is the textual
  rendering of the schema.
\<close>

theorem expected_schema_sorted_names:
  assumes "dict_get (schema error) kw (PList []) = PList (map PDict alts)"
  shows "(map (\<lambda>d. map_of d ''schema_name'') alts = map (\<lambda>s. Some (PStr s)) names
          \<longrightarrow> expected_schema r error kw =
                (if filter (\<lambda>s. s \<noteq> []) names = [] then Inr (r (PDict (schema error)))
                 else Inr (join '' or '' (sort (filter (\<lambda>s. s \<noteq> []) names))))
              \<and> ((kw = ''oneOf'' \<or> kw = ''anyOf'') \<and> validator error = kw
                    \<and> filter (\<lambda>s. s \<noteq> []) names \<noteq> []
                   \<longrightarrow> humanize_flow_error r error =
                         Inr (''Not a valid '' @ [CHR 0x27]
                                @ str_segment (faulty_property (absolute_path error))
                                @ [CHR 0x27] @ '' definition. Expected ''
                                @ join '' or '' (sort (filter (\<lambda>s. s \<noteq> []) names))
                                @ ''.'')))
       \<and> (filter truthy (map schema_name alts) = map PStr ns \<and> ns \<noteq> []
          \<longrightarrow> expected_schema r error kw = Inr (join '' or '' (sort ns)))
       \<and> (list_all (\<lambda>d. \<not> truthy (schema_name d)) alts
          \<longrightarrow> expected_schema r error kw = Inr (r (PDict (schema error))))"
proof -
  let ?kept = "filter (\<lambda>s. s \<noteq> []) names"
  have general: "expected_schema r error kw = Inr (join '' or '' (sort ms))"
    if "filter truthy (map schema_name alts) = map PStr ms" and "ms \<noteq> []" for ms
    using that by (simp add: expected_schema_def assms schema_names_dicts join_sorted_strs)
  have none: "expected_schema r error kw = Inr (r (PDict (schema error)))"
    if "filter truthy (map schema_name alts) = []"
    using that by (simp add: expected_schema_def assms schema_names_dicts)
  have declared: "filter truthy (map schema_name alts) = map PStr ?kept"
    if "map (\<lambda>d. map_of d ''schema_name'') alts = map (\<lambda>s. Some (PStr s)) names"
    using that by (simp add: declared_names filter_truthy_strs)
  have c1: "map (\<lambda>d. map_of d ''schema_name'') alts = map (\<lambda>s. Some (PStr s)) names
          \<longrightarrow> expected_schema r error kw =
                (if ?kept = [] then Inr (r (PDict (schema error)))
                 else Inr (join '' or '' (sort ?kept)))"
    using declared general [of ?kept] none by auto
  have c2: "map (\<lambda>d. map_of d ''schema_name'') alts = map (\<lambda>s. Some (PStr s)) names
          \<longrightarrow> (kw = ''oneOf'' \<or> kw = ''anyOf'') \<and> validator error = kw \<and> ?kept \<noteq> []
          \<longrightarrow> humanize_flow_error r error =
                Inr (''Not a valid '' @ [CHR 0x27]
                       @ str_segment (faulty_property (absolute_path error))
                       @ [CHR 0x27] @ '' definition. Expected ''
                       @ join '' or '' (sort ?kept) @ ''.'')"
  proof (intro impI)
    assume d: "map (\<lambda>d. map_of d ''schema_name'') alts = map (\<lambda>s. Some (PStr s)) names"
      and k: "(kw = ''oneOf'' \<or> kw = ''anyOf'') \<and> validator error = kw \<and> ?kept \<noteq> []"
    from d k have e: "expected_schema r error kw = Inr (join '' or '' (sort ?kept))"
      using declared general [of ?kept] by simp
    from k e show "humanize_flow_error r error =
                Inr (''Not a valid '' @ [CHR 0x27]
                       @ str_segment (faulty_property (absolute_path error))
                       @ [CHR 0x27] @ '' definition. Expected ''
                       @ join '' or '' (sort ?kept) @ ''.'')"
      by (auto simp add: humanize_flow_error_def format_oneof_error_def
          format_anyof_error_def not_valid_message_def quote_def)
  qed
  have c3: "filter truthy (map schema_name alts) = map PStr ns \<and> ns \<noteq> []
          \<longrightarrow> expected_schema r error kw = Inr (join '' or '' (sort ns))"
    using general [of ns] by simp
  have c4: "list_all (\<lambda>d. \<not> truthy (schema_name d)) alts
          \<longrightarrow> expected_schema r error kw = Inr (r (PDict (schema error)))"
    using none by (simp add: filter_truthy_none)
  from c1 c2 c3 c4 show ?thesis by blast
qed

theorem expected_schema_sorted_names_witness:
  "expected_schema example_repr example_error ''oneOf''
     = Inr ''action step or action step or link step''
   \<and> humanize_flow_error example_repr example_error
     = Inr ''Not a valid 'steps' definition. Expected action step or action step or link step.''
   \<and> expected_schema example_repr mixed_error ''anyOf'' = Inr ''action step or collect step''
   \<and> humanize_flow_error example_repr mixed_error
     = Inr ''Not a valid 'next' definition. Expected action step or collect step.''
   \<and> expected_schema example_repr unnamed_error ''anyOf'' = Inr ''{}''"
proof -
  have a: "dict_get (schema example_error) ''oneOf'' (PList [])
             = PList (map PDict [[(''schema_name'', PStr ''link step'')],
                                 [(''schema_name'', PStr ''action step'')],
                                 [(''schema_name'', PStr ''action step'')]])"
    by (simp add: example_error_def dict_get_def)
  have b: "dict_get (schema mixed_error) ''anyOf'' (PList [])
             = PList (map PDict [[(''required'', PList [PStr ''collect'']),
                                  (''schema_name'', PStr ''collect step'')],
                                 [(''required'', PList [PStr ''noop'']),
                                  (''schema_name'', PStr [])],
                                 [(''required'', PList [PStr ''action'']),
                                  (''schema_name'', PStr ''action step'')]])"
    by (simp add: mixed_error_def dict_get_def)
  have c: "dict_get (schema unnamed_error) ''anyOf'' (PList [])
             = PList (map PDict [[(''schema_name'', PStr [])], []])"
    by (simp add: unnamed_error_def dict_get_def)
  have pa: "validator example_error = ''oneOf''
      \<and> str_segment (faulty_property (absolute_path example_error)) = ''steps''"
    by (simp add: example_error_def faulty_property_def)
  have pb: "validator mixed_error = ''anyOf''
      \<and> str_segment (faulty_property (absolute_path mixed_error)) = ''next''"
    by (simp add: mixed_error_def faulty_property_def)
  have w1: "expected_schema example_repr example_error ''oneOf''
              = Inr ''action step or action step or link step''
            \<and> humanize_flow_error example_repr example_error
              = Inr ''Not a valid 'steps' definition. Expected action step or action step or link step.''"
    using expected_schema_sorted_names [OF a,
        of "[''link step'', ''action step'', ''action step'']" example_repr "[]"]
    by (simp add: pa)
  have w2: "expected_schema example_repr mixed_error ''anyOf''
              = Inr ''action step or collect step''
            \<and> humanize_flow_error example_repr mixed_error
              = Inr ''Not a valid 'next' definition. Expected action step or collect step.''"
    using expected_schema_sorted_names [OF b,
        of "[''collect step'', [], ''action step'']" example_repr "[]"]
    by (simp add: pb)
  have w3: "expected_schema example_repr unnamed_error ''anyOf'' = Inr ''{}''"
    using expected_schema_sorted_names [OF c, of "[[]]" example_repr "[]"]
    by (simp add: schema_name_def dict_get_def example_repr_def)
  from w1 w2 w3 show ?thesis by simp
qed

subsection \<open>The faulty property\<close>

text \<open>
  C2: the name is the last segment of the path that is not an integer index, also for a
  path that ends in two or more indices. The code looks one segment back only: on a path
  into a nested list it returns the index of the outer list, an integer, although its
  docstring, its comment and its return annotation promise the name of a property.
\<close>

theorem faulty_property_nested_index:
  "faulty_property [Name ''flows'', Name ''x'', Name ''steps'', Index 0, Index 1] = Index 0
   \<and> faulty_property [Name ''flows'', Name ''x'', Name ''steps'', Index 0, Index 1]
        \<noteq> Name ''steps''
   \<and> faulty_property [Index 0, Index 1] = Index 0"
  by (simp add: faulty_property_def)

text \<open>
  C4: \<^verbatim>\<open>faulty_property([])\<close> is \<^verbatim>\<open>"schema"\<close>; on a path of at least two segments
  whose last one is an index it is the segment before the last; on a path that is a single
  index it is \<^verbatim>\<open>"list"\<close>; on a path whose last segment is a name it is that name; and
  the two examples of the specification.
\<close>

theorem faulty_property_cases:
  "faulty_property [] = Name ''schema''
   \<and> faulty_property (path @ [seg, Index i]) = seg
   \<and> faulty_property [Index i] = Name ''list''
   \<and> faulty_property (path @ [Name s]) = Name s
   \<and> str_segment (faulty_property (path @ [Name s])) = s
   \<and> faulty_property [Name ''flows'', Name ''x'', Name ''steps'', Index 0, Name ''next'']
       = Name ''next''
   \<and> faulty_property [Name ''flows'', Name ''x'', Name ''steps'', Index 2] = Name ''steps''"
  by (simp add: faulty_property_def nth_append)

subsection \<open>The display name of a schema\<close>

text \<open>
  C3, as stated: an empty \<^verbatim>\<open>schema_name\<close> falls back to \<^verbatim>\<open>type\<close>. It does not:
  \<^verbatim>\<open>dict.get\<close> takes its default only when the key is absent.
\<close>

theorem schema_name_empty_counterexample:
  "schema_name [(''schema_name'', PStr []), (''type'', PStr ''object'')] = PStr []
   \<and> schema_name [(''schema_name'', PStr []), (''type'', PStr ''object'')] \<noteq> PStr ''object''"
  by (simp add: schema_name_def dict_get_def)

text \<open>
  C3, amended: \<^verbatim>\<open>schema_name\<close> returns the value of \<^verbatim>\<open>schema_name\<close> whenever the key
  is present, empty or not; otherwise the value of \<^verbatim>\<open>type\<close> when that key is present;
  otherwise \<^verbatim>\<open>None\<close>.
\<close>

theorem schema_name_lookup:
  "(map_of sch ''schema_name'' = Some v \<longrightarrow> schema_name sch = v)
   \<and> (map_of sch ''schema_name'' = None \<and> map_of sch ''type'' = Some t
        \<longrightarrow> schema_name sch = t)
   \<and> (map_of sch ''schema_name'' = None \<and> map_of sch ''type'' = None
        \<longrightarrow> schema_name sch = PNone)"
  by (simp add: schema_name_def dict_get_def)

theorem schema_name_lookup_witness:
  "schema_name [(''schema_name'', PStr ''list of steps''), (''type'', PStr ''array'')]
     = PStr ''list of steps''
   \<and> schema_name [(''type'', PStr ''array'')] = PStr ''array''
   \<and> schema_name [(''items'', PDict [])] = PNone"
  using schema_name_lookup
          [of "[(''schema_name'', PStr ''list of steps''), (''type'', PStr ''array'')]"
              "PStr ''list of steps''" "PStr ''array''"]
    schema_name_lookup [of "[(''type'', PStr ''array'')]" PNone "PStr ''array''"]
    schema_name_lookup [of "[(''items'', PDict [])]" PNone PNone]
  by simp

subsection \<open>Type errors, pass-through and fallback\<close>

text \<open>
  The decimal rendering of an integer reads back as that integer.
\<close>

lemma digit_char:
  assumes "d < 10"
  shows "digit_value (''0123456789'' ! d) = Some d \<and> ''0123456789'' ! d \<noteq> CHR ''-''
         \<and> (''0123456789'' ! d = CHR ''0'' \<longrightarrow> d = 0)"
proof -
  from assms have "d \<in> {0, 1, 2, 3, 4, 5, 6, 7, 8, 9}" by auto
  then show ?thesis by (auto simp add: digit_value_def)
qed

lemma digits_value_append:
  "digits_value acc (s @ t) =
     (case digits_value acc s of None \<Rightarrow> None | Some a \<Rightarrow> digits_value a t)"
  by (induction s arbitrary: acc) (simp_all split: option.split)

lemma digits_value_digits: "digits_value 0 (digits n) = Some n"
proof (induction n rule: digits.induct)
  case (1 n)
  show ?case
  proof (cases "n < 10")
    case True
    then show ?thesis by (simp add: digits.simps [of n] digit_char)
  next
    case False
    then have "digits_value 0 (digits (n div 10)) = Some (n div 10)" by (rule "1.IH")
    moreover have "digit_value (''0123456789'' ! (n mod 10)) = Some (n mod 10)"
      by (simp add: digit_char)
    ultimately show ?thesis
      using False by (simp add: digits.simps [of n] digits_value_append)
  qed
qed

lemma digits_not_Nil: "digits n \<noteq> []"
  by (simp add: digits.simps [of n])

lemma hd_digits: "hd (digits n) \<noteq> CHR ''-'' \<and> (hd (digits n) = CHR ''0'' \<longrightarrow> n = 0)"
proof (induction n rule: digits.induct)
  case (1 n)
  show ?case
  proof (cases "n < 10")
    case True
    then show ?thesis using digit_char [of n] by (simp add: digits.simps [of n])
  next
    case False
    then have ih: "hd (digits (n div 10)) \<noteq> CHR ''-''
        \<and> (hd (digits (n div 10)) = CHR ''0'' \<longrightarrow> n div 10 = 0)" by (rule "1.IH")
    from False have "n div 10 \<noteq> 0" by simp
    with ih False show ?thesis
      by (simp add: digits.simps [of n] digits_not_Nil)
  qed
qed

lemma numeral_value_digits: "numeral_value (digits n) = Some n"
proof (cases "n = 0")
  case True
  then show ?thesis by (simp add: numeral_value_def digits.simps [of 0] digit_value_def)
next
  case False
  with hd_digits [of n] show ?thesis
    by (simp add: numeral_value_def digits_not_Nil digits_value_digits)
qed

lemma decimal_value_str_int: "decimal_value (str_int i) = Some i"
proof (cases "i < 0")
  case True
  then show ?thesis by (simp add: decimal_value_def str_int_def numeral_value_digits)
next
  case False
  obtain c cs where d: "digits (nat i) = c # cs"
    using digits_not_Nil [of "nat i"] by (cases "digits (nat i)") auto
  with hd_digits [of "nat i"] have "c \<noteq> CHR ''-''" by simp
  with False d numeral_value_digits [of "nat i"] show ?thesis
    by (simp add: decimal_value_def str_int_def)
qed

text \<open>
  C5: for a type error the message is \<^verbatim>\<open>Found <classification> but expected a <name>.\<close>
  The classification is \<^verbatim>\<open>a dictionary\<close> for a dictionary, \<^verbatim>\<open>a list\<close> for a list, and
  otherwise the value between backticks: a string as it is, \<^verbatim>\<open>None\<close>, \<^verbatim>\<open>True\<close>,
  \<^verbatim>\<open>False\<close>, the decimal numeral of an integer, Python's rendering of a float. The name
  is \<^verbatim>\<open>str\<close> of \<^verbatim>\<open>schema_name(error.schema)\<close>: the string itself when it is a string,
  \<^verbatim>\<open>None\<close> when the schema has neither \<^verbatim>\<open>schema_name\<close> nor \<^verbatim>\<open>type\<close>, and the
  rendering of the value otherwise. For a dictionary the message starts with
  \<^verbatim>\<open>Found a dictionary but expected a \<close>, and \<^verbatim>\<open>humanize_flow_error\<close> returns this
  message when the validator is \<^verbatim>\<open>type\<close>.
\<close>

theorem format_type_error_message:
  "\<exists>name.
     (inst error = PDict kvs \<longrightarrow>
        format_type_error r error = ''Found a dictionary but expected a '' @ name @ ''.''
        \<and> prefix ''Found a dictionary but expected a '' (format_type_error r error))
   \<and> (inst error = PList xs \<longrightarrow>
        format_type_error r error = ''Found a list but expected a '' @ name @ ''.'')
   \<and> (inst error = PStr s \<longrightarrow>
        format_type_error r error = ''Found `'' @ s @ ''` but expected a '' @ name @ ''.'')
   \<and> (inst error = PNone \<longrightarrow>
        format_type_error r error = ''Found `None` but expected a '' @ name @ ''.'')
   \<and> (inst error = PBool True \<longrightarrow>
        format_type_error r error = ''Found `True` but expected a '' @ name @ ''.'')
   \<and> (inst error = PBool False \<longrightarrow>
        format_type_error r error = ''Found `False` but expected a '' @ name @ ''.'')
   \<and> (inst error = PInt i \<longrightarrow>
        (\<exists>ds. decimal_value ds = Some i
           \<and> format_type_error r error = ''Found `'' @ ds @ ''` but expected a '' @ name @ ''.''))
   \<and> (inst error = PFloat w \<longrightarrow>
        format_type_error r error
          = ''Found `'' @ r (PFloat w) @ ''` but expected a '' @ name @ ''.'')
   \<and> (validator error = ''type'' \<longrightarrow>
        humanize_flow_error r error = Inr (format_type_error r error))
   \<and> (schema_name (schema error) = PStr nm \<longrightarrow> name = nm)
   \<and> (schema_name (schema error) = PNone \<longrightarrow> name = ''None'')
   \<and> (schema_name (schema error) = PBool True \<longrightarrow> name = ''True'')
   \<and> (schema_name (schema error) = PBool False \<longrightarrow> name = ''False'')
   \<and> (schema_name (schema error) = PInt j \<longrightarrow> decimal_value name = Some j)
   \<and> (schema_name (schema error) = PFloat x \<longrightarrow> name = r (PFloat x))
   \<and> (schema_name (schema error) = PList ys \<longrightarrow> name = r (PList ys))
   \<and> (schema_name (schema error) = PDict zs \<longrightarrow> name = r (PDict zs))"
proof -
  let ?name = "py_str r (schema_name (schema error))"
  have shape: "format_type_error r error
      = ''Found '' @ classify_instance r (inst error) @ '' but expected a '' @ ?name @ ''.''"
    by (simp add: format_type_error_def)
  have i1: "inst error = PDict kvs \<longrightarrow>
        format_type_error r error = ''Found a dictionary but expected a '' @ ?name @ ''.''
        \<and> prefix ''Found a dictionary but expected a '' (format_type_error r error)"
    by (simp add: shape classify_instance_def)
  have i2: "inst error = PList xs \<longrightarrow>
        format_type_error r error = ''Found a list but expected a '' @ ?name @ ''.''"
    by (simp add: shape classify_instance_def)
  have i3: "inst error = PStr s \<longrightarrow>
        format_type_error r error = ''Found `'' @ s @ ''` but expected a '' @ ?name @ ''.''"
    by (simp add: shape classify_instance_def backtick_def)
  have i4: "inst error = PNone \<longrightarrow>
        format_type_error r error = ''Found `None` but expected a '' @ ?name @ ''.''"
    by (simp add: shape classify_instance_def backtick_def)
  have i5: "inst error = PBool True \<longrightarrow>
        format_type_error r error = ''Found `True` but expected a '' @ ?name @ ''.''"
    by (simp add: shape classify_instance_def backtick_def)
  have i6: "inst error = PBool False \<longrightarrow>
        format_type_error r error = ''Found `False` but expected a '' @ ?name @ ''.''"
    by (simp add: shape classify_instance_def backtick_def)
  have "inst error = PInt i \<longrightarrow>
        decimal_value (str_int i) = Some i
        \<and> format_type_error r error
            = ''Found `'' @ str_int i @ ''` but expected a '' @ ?name @ ''.''"
    by (simp add: shape classify_instance_def backtick_def decimal_value_str_int)
  then have i7: "inst error = PInt i \<longrightarrow>
        (\<exists>ds. decimal_value ds = Some i
           \<and> format_type_error r error = ''Found `'' @ ds @ ''` but expected a '' @ ?name @ ''.'')"
    by blast
  have i8: "inst error = PFloat w \<longrightarrow>
        format_type_error r error
          = ''Found `'' @ r (PFloat w) @ ''` but expected a '' @ ?name @ ''.''"
    by (simp add: shape classify_instance_def backtick_def)
  have h: "validator error = ''type'' \<longrightarrow>
        humanize_flow_error r error = Inr (format_type_error r error)"
    by (simp add: humanize_flow_error_def)
  have n1: "schema_name (schema error) = PStr nm \<longrightarrow> ?name = nm" by simp
  have n2: "schema_name (schema error) = PNone \<longrightarrow> ?name = ''None''" by simp
  have n3: "schema_name (schema error) = PBool True \<longrightarrow> ?name = ''True''" by simp
  have n4: "schema_name (schema error) = PBool False \<longrightarrow> ?name = ''False''" by simp
  have n5: "schema_name (schema error) = PInt j \<longrightarrow> decimal_value ?name = Some j"
    by (simp add: decimal_value_str_int)
  have n6: "schema_name (schema error) = PFloat x \<longrightarrow> ?name = r (PFloat x)" by simp
  have n7: "schema_name (schema error) = PList ys \<longrightarrow> ?name = r (PList ys)" by simp
  have n8: "schema_name (schema error) = PDict zs \<longrightarrow> ?name = r (PDict zs)" by simp
  show ?thesis
    by (rule exI [of _ ?name]) (intro conjI i1 i2 i3 i4 i5 i6 i7 i8 h n1 n2 n3 n4 n5 n6 n7 n8)
qed

theorem format_type_error_message_witness:
  "format_type_error example_repr (type_error (PDict [(''a'', PInt 1)]))
     = ''Found a dictionary but expected a list of steps.''
   \<and> format_type_error example_repr (type_error (PList [PInt 1]))
     = ''Found a list but expected a list of steps.''
   \<and> format_type_error example_repr (type_error (PStr ''not-a-list''))
     = ''Found `not-a-list` but expected a list of steps.''
   \<and> humanize_flow_error example_repr (type_error (PStr ''not-a-list''))
     = Inr ''Found `not-a-list` but expected a list of steps.''
   \<and> format_type_error example_repr (type_error PNone)
     = ''Found `None` but expected a list of steps.''
   \<and> format_type_error example_repr (type_error (PBool True))
     = ''Found `True` but expected a list of steps.''
   \<and> format_type_error example_repr (type_error (PBool False))
     = ''Found `False` but expected a list of steps.''
   \<and> format_type_error example_repr (type_error (PInt 42))
     = ''Found `42` but expected a list of steps.''
   \<and> format_type_error example_repr (type_error (PInt (- 7)))
     = ''Found `-7` but expected a list of steps.''
   \<and> format_type_error example_repr ((type_error (PInt 1205))\<lparr>schema := []\<rparr>)
     = ''Found `1205` but expected a None.''"
proof -
  have s: "schema_name (schema (type_error v)) = PStr ''list of steps''" for v
    by (simp add: type_error_def schema_name_def dict_get_def)
  have i: "inst (type_error v) = v" for v
    by (simp add: type_error_def)
  have v: "validator (type_error v) = ''type''" for v
    by (simp add: type_error_def)
  have w1: "format_type_error example_repr (type_error (PDict [(''a'', PInt 1)]))
     = ''Found a dictionary but expected a list of steps.''"
    using format_type_error_message
            [of "type_error (PDict [(''a'', PInt 1)])" "[(''a'', PInt 1)]" example_repr
                "[]" "[]" 0 0 "''list of steps''" 0 0 "[]" "[]"]
    by (simp add: s i)
  have w2: "format_type_error example_repr (type_error (PList [PInt 1]))
     = ''Found a list but expected a list of steps.''"
    using format_type_error_message
            [of "type_error (PList [PInt 1])" "[]" example_repr
                "[PInt 1]" "[]" 0 0 "''list of steps''" 0 0 "[]" "[]"]
    by (simp add: s i)
  have w3: "format_type_error example_repr (type_error (PStr ''not-a-list''))
     = ''Found `not-a-list` but expected a list of steps.''
   \<and> humanize_flow_error example_repr (type_error (PStr ''not-a-list''))
     = Inr ''Found `not-a-list` but expected a list of steps.''"
    using format_type_error_message
            [of "type_error (PStr ''not-a-list'')" "[]" example_repr
                "[]" "''not-a-list''" 0 0 "''list of steps''" 0 0 "[]" "[]"]
    by (simp add: s i v)
  have w4: "format_type_error example_repr (type_error PNone)
     = ''Found `None` but expected a list of steps.''"
    using format_type_error_message
            [of "type_error PNone" "[]" example_repr
                "[]" "[]" 0 0 "''list of steps''" 0 0 "[]" "[]"]
    by (simp add: s i)
  have w5: "format_type_error example_repr (type_error (PBool True))
     = ''Found `True` but expected a list of steps.''"
    using format_type_error_message
            [of "type_error (PBool True)" "[]" example_repr
                "[]" "[]" 0 0 "''list of steps''" 0 0 "[]" "[]"]
    by (simp add: s i)
  have w6: "format_type_error example_repr (type_error (PBool False))
     = ''Found `False` but expected a list of steps.''"
    using format_type_error_message
            [of "type_error (PBool False)" "[]" example_repr
                "[]" "[]" 0 0 "''list of steps''" 0 0 "[]" "[]"]
    by (simp add: s i)
  have w7: "format_type_error example_repr (type_error (PInt 42))
     = ''Found `42` but expected a list of steps.''"
    by (simp add: format_type_error_def classify_instance_def backtick_def s i
        str_int_def digits.simps)
  have w8: "format_type_error example_repr (type_error (PInt (- 7)))
     = ''Found `-7` but expected a list of steps.''"
    by (simp add: format_type_error_def classify_instance_def backtick_def s i
        str_int_def digits.simps)
  have w9: "format_type_error example_repr ((type_error (PInt 1205))\<lparr>schema := []\<rparr>)
     = ''Found `1205` but expected a None.''"
    by (simp add: format_type_error_def classify_instance_def backtick_def type_error_def
        schema_name_def dict_get_def str_int_def digits.simps)
  from w1 w2 w3 w4 w5 w6 w7 w8 w9 show ?thesis by (intro conjI) simp_all
qed

text \<open>
  C6: for the validators \<^verbatim>\<open>additionalProperties\<close> and \<^verbatim>\<open>required\<close> the result is
  \<^verbatim>\<open>error.message\<close> as it is; for a validator outside the five handled ones it is the
  fixed sentence around \<^verbatim>\<open>error.json_path\<close>.
\<close>

theorem humanize_passthrough_and_fallback:
  "(validator error = ''additionalProperties'' \<or> validator error = ''required''
      \<longrightarrow> humanize_flow_error r error = Inr (message error))
   \<and> (validator error \<notin> {''oneOf'', ''anyOf'', ''type'', ''additionalProperties'', ''required''}
      \<longrightarrow> humanize_flow_error r error =
            Inr (''The flow at '' @ json_path error
                  @ '' is not valid. Please double check your flow definition.''))"
  by (auto simp add: humanize_flow_error_def)

theorem humanize_passthrough_and_fallback_witness:
  "humanize_flow_error example_repr (example_error\<lparr>validator := ''required''\<rparr>) = Inr ''boom''
   \<and> humanize_flow_error example_repr (example_error\<lparr>validator := ''additionalProperties''\<rparr>)
       = Inr ''boom''
   \<and> humanize_flow_error example_repr (example_error\<lparr>validator := ''minItems''\<rparr>)
       = Inr ''The flow at $.flows.x.steps[0] is not valid. Please double check your flow definition.''"
  using humanize_passthrough_and_fallback
          [of "example_error\<lparr>validator := ''required''\<rparr>" example_repr]
    humanize_passthrough_and_fallback
          [of "example_error\<lparr>validator := ''additionalProperties''\<rparr>" example_repr]
    humanize_passthrough_and_fallback
          [of "example_error\<lparr>validator := ''minItems''\<rparr>" example_repr]
  by (simp add: example_error_def)

subsection \<open>Reading\<close>



text \<open>
  C8, as stated: whenever \<^verbatim>\<open>read_from_file\<close> fails, the error carries the path of the
  file. It does not when the exception is outside the \<^verbatim>\<open>RasaException\<close> hierarchy: for
  a file whose document is a list, read with \<^verbatim>\<open>skip_validation=True\<close>,
  \<^verbatim>\<open>yaml_content.get\<close> raises \<^verbatim>\<open>AttributeError\<close>, which neither handler matches.
\<close>

theorem read_from_file_unclassified_counterexample:
  "read_from_file example_env ''list.yml'' True = Inl (PyException AttributeError)
   \<and> error_filename (read_from_file example_env ''list.yml'' True) \<noteq> Some ''list.yml''"
  by (simp add: read_from_file_def read_from_file_body_def read_from_string_def
      example_env_def example_text_def error_filename_def)

text \<open>
  C8, amended: when the body of \<^verbatim>\<open>read_from_file\<close> (reading the file, then
  \<^verbatim>\<open>read_from_string\<close>) raises a \<^verbatim>\<open>YamlException\<close>, the same exception is raised with
  its \<^verbatim>\<open>filename\<close> set to the path; when it raises any other \<^verbatim>\<open>RasaException\<close>, a new
  \<^verbatim>\<open>YamlException\<close> for the path is raised with the original as its cause; in both
  cases the error carries the path. An exception outside the \<^verbatim>\<open>RasaException\<close>
  hierarchy goes on unchanged, without the path. Every failure of the body is a failure of
  \<^verbatim>\<open>read_from_file\<close>, and a result is returned as it is.
\<close>

theorem read_from_file_errors:
  "(read_from_file_body env filename skip = Inl (YamlException fn detail cause) \<longrightarrow>
      read_from_file env filename skip = Inl (YamlException (Some filename) detail cause)
      \<and> error_filename (read_from_file env filename skip) = Some filename)
   \<and> (read_from_file_body env filename skip = Inl (RasaException d) \<longrightarrow>
      read_from_file env filename skip =
        Inl (YamlException (Some filename) [] (Some (RasaException d)))
      \<and> error_filename (read_from_file env filename skip) = Some filename)
   \<and> (read_from_file_body env filename skip = Inl (PyException pe) \<longrightarrow>
      read_from_file env filename skip = Inl (PyException pe)
      \<and> error_filename (read_from_file env filename skip) = None)
   \<and> (read_from_file_body env filename skip = Inl e \<longrightarrow>
      (\<exists>e'. read_from_file env filename skip = Inl e'))
   \<and> (read_from_file_body env filename skip = Inr flows \<longrightarrow>
      read_from_file env filename skip = Inr flows)"
  by (cases e) (simp_all add: read_from_file_def error_filename_def)

theorem read_from_file_errors_witness:
  "read_from_file example_env ''broken.yml'' True
     = Inl (YamlException (Some ''broken.yml'') ''syntax error'' None)
   \<and> read_from_file example_env ''missing.yml'' False
     = Inl (YamlException (Some ''missing.yml'') []
             (Some (RasaException ''FileNotFoundException'')))
   \<and> read_from_file example_env ''list.yml'' True = Inl (PyException AttributeError)
   \<and> read_from_file example_env ''flows.yml'' False = Inr example_flows"
proof -
  have b1: "read_from_file_body example_env ''broken.yml'' True
              = Inl (YamlException None ''syntax error'' None)"
    by (simp add: read_from_file_body_def read_from_string_def example_env_def
        example_text_def)
  have b2: "read_from_file_body example_env ''missing.yml'' False
              = Inl (RasaException ''FileNotFoundException'')"
    by (simp add: read_from_file_body_def example_env_def)
  have b3: "read_from_file_body example_env ''list.yml'' True
              = Inl (PyException AttributeError)"
    by (simp add: read_from_file_body_def read_from_string_def example_env_def
        example_text_def)
  have b4: "read_from_file_body example_env ''flows.yml'' False = Inr example_flows"
    by (simp add: read_from_file_body_def read_from_string_def example_env_def
        example_text_def example_doc_def example_flows_def dict_get_def KEY_FLOWS_def)
  show ?thesis
    using read_from_file_errors
            [of example_env "''broken.yml''" True None "''syntax error''" None
                "''x''" AttributeError "YamlException None ''syntax error'' None" "[]"]
      read_from_file_errors
            [of example_env "''missing.yml''" False None "[]" None
                "''FileNotFoundException''" AttributeError
                "RasaException ''FileNotFoundException''" "[]"]
      read_from_file_errors
            [of example_env "''list.yml''" True None "[]" None
                "''x''" AttributeError "PyException AttributeError" "[]"]
      read_from_file_errors
            [of example_env "''flows.yml''" False None "[]" None
                "''x''" AttributeError "PyException AttributeError" example_flows]
    by (simp add: b1 b2 b3 b4)
qed

subsection \<open>Writing\<close>

text \<open>
  When every flow has the identifier field, the loop of \<^verbatim>\<open>dumps\<close> never raises and is a
  fold of the assignments \<open>assign_flow\<close>.
\<close>

lemma dumps_loop_fold:
  "list_all (has_id env) flows \<Longrightarrow>
     dumps_loop env flows dump = Inr (fold (assign_flow env) flows dump)"
  by (induction flows arbitrary: dump)
    (simp_all add: has_id_def assign_flow_def flow_body_def Let_def)



lemma fold_assign_distinct:
  "distinct (map fst dump) \<Longrightarrow> distinct (map fst (fold (assign_flow env) flows dump))"
  by (induction flows arbitrary: dump) (simp_all add: assign_flow_def distinct_update)

lemma fold_assign_keys:
  "fst ` set (fold (assign_flow env) flows dump) = fst ` set dump \<union> flow_id env ` set flows"
  by (induction flows arbitrary: dump) (auto simp add: assign_flow_def dom_update)

lemma fold_assign_other:
  "k \<notin> flow_id env ` set flows \<Longrightarrow>
     map_of (fold (assign_flow env) flows dump) k = map_of dump k"
  by (induction flows arbitrary: dump) (auto simp add: assign_flow_def update_conv')

lemma fold_assign_last:
  assumes "flow_id env f \<notin> flow_id env ` set after"
  shows "map_of (fold (assign_flow env) (before @ f # after) dump) (flow_id env f)
           = Some (flow_body env f)"
  using assms by (simp add: fold_assign_other) (simp add: assign_flow_def update_conv')

lemma one_entry:
  "distinct (map fst al) \<Longrightarrow> k \<in> fst ` set al \<Longrightarrow>
     length (filter (\<lambda>kv. fst kv = k) al) = 1"
proof (induction al)
  case Nil
  then show ?case by simp
next
  case (Cons p al)
  show ?case
  proof (cases "fst p = k")
    case True
    with Cons.prems have "k \<notin> fst ` set al" by auto
    then have "filter (\<lambda>kv. fst kv = k) al = []" by (auto simp add: filter_empty_conv)
    with True show ?thesis by simp
  next
    case False
    with Cons show ?thesis by auto
  qed
qed

lemma fold_assign_length:
  "length (fold (assign_flow env) flows []) = card (flow_id env ` set flows)"
proof -
  have d: "distinct (map fst (fold (assign_flow env) flows []))"
    by (simp add: fold_assign_distinct)
  have "length (fold (assign_flow env) flows [])
          = length (map fst (fold (assign_flow env) flows []))" by simp
  also have "\<dots> = card (set (map fst (fold (assign_flow env) flows [])))"
    using d by (simp only: distinct_card)
  also have "\<dots> = card (flow_id env ` set flows)"
    by (simp add: fold_assign_keys)
  finally show ?thesis .
qed
















text \<open>
  C10: when two flows of the list have the same identifier (and every mapping form has the
  identifier field), \<^verbatim>\<open>dumps\<close> raises nothing; the written mapping has exactly one
  entry for that identifier, the body of the last flow with it, and fewer entries than
  there are flows.
\<close>

theorem dumps_duplicate_ids:
  assumes "list_all (has_id env) flows"
    and "flows = before @ f1 # between @ f2 # after"
    and "flow_id env f1 = flow_id env f2"
    and "flow_id env f2 \<notin> flow_id env ` set after"
  shows "\<exists>dump. dumps env flows
                  = Inr (dump_obj_as_yaml_to_string env (PDict [(''flows'', PDict dump)]))
           \<and> distinct (map fst dump)
           \<and> length (filter (\<lambda>kv. fst kv = flow_id env f2) dump) = 1
           \<and> map_of dump (flow_id env f2) = Some (flow_body env f2)
           \<and> length dump < length flows"
proof -
  let ?dump = "fold (assign_flow env) flows []"
  have w: "dumps env flows
             = Inr (dump_obj_as_yaml_to_string env (PDict [(''flows'', PDict ?dump)]))"
    using assms(1) by (simp add: dumps_def dumps_loop_fold KEY_FLOWS_def)
  have d: "distinct (map fst ?dump)"
    by (simp add: fold_assign_distinct)
  have "flow_id env f2 \<in> flow_id env ` set flows"
    using assms(2) by simp
  then have "flow_id env f2 \<in> fst ` set ?dump"
    by (simp only: fold_assign_keys) simp
  with d have one: "length (filter (\<lambda>kv. fst kv = flow_id env f2) ?dump) = 1"
    by (rule one_entry)
  have "flows = (before @ f1 # between) @ f2 # after"
    using assms(2) by simp
  then have last: "map_of ?dump (flow_id env f2) = Some (flow_body env f2)"
    using assms(4) fold_assign_last [of env f2 after "before @ f1 # between" "[]"] by simp
  have "\<not> distinct (map (flow_id env) flows)"
    using assms(2,3) by auto
  then have "card (set (map (flow_id env) flows)) \<noteq> length (map (flow_id env) flows)"
    using card_distinct by blast
  moreover have "card (set (map (flow_id env) flows)) \<le> length (map (flow_id env) flows)"
    by (rule card_length)
  ultimately have "card (flow_id env ` set flows) < length flows" by simp
  then have less: "length ?dump < length flows"
    by (simp add: fold_assign_length)
  from w d one last less show ?thesis by blast
qed

theorem dumps_duplicate_ids_witness:
  "\<exists>dump. dumps example_env [(''greet'', [(''name'', PStr ''hi'')]), (''bye'', []),
                               (''greet'', [(''name'', PStr ''hello'')])]
            = Inr (dump_obj_as_yaml_to_string example_env (PDict [(''flows'', PDict dump)]))
     \<and> distinct (map fst dump)
     \<and> length (filter (\<lambda>kv. fst kv = ''greet'') dump) = 1
     \<and> map_of dump ''greet'' = Some (PDict [(''name'', PStr ''hello'')])
     \<and> length dump < 3"
proof -
  have h1: "list_all (has_id example_env)
              [(''greet'', [(''name'', PStr ''hi'')]), (''bye'', []),
               (''greet'', [(''name'', PStr ''hello'')])]"
    by (simp add: has_id_def example_env_def)
  have h2: "[(''greet'', [(''name'', PStr ''hi'')]), (''bye'', []),
             (''greet'', [(''name'', PStr ''hello'')])]
            = [] @ (''greet'', [(''name'', PStr ''hi'')]) # [(''bye'', [])]
                @ (''greet'', [(''name'', PStr ''hello'')]) # []"
    by simp
  have h3: "flow_id example_env (''greet'', [(''name'', PStr ''hi'')])
              = flow_id example_env (''greet'', [(''name'', PStr ''hello'')])"
    by (simp add: example_env_def)
  have h4: "flow_id example_env (''greet'', [(''name'', PStr ''hello'')])
              \<notin> flow_id example_env ` set []"
    by simp
  have fid: "flow_id example_env (''greet'', [(''name'', PStr ''hello'')]) = ''greet''"
    by (simp add: example_env_def)
  have body: "flow_body example_env (''greet'', [(''name'', PStr ''hello'')])
                = PDict [(''name'', PStr ''hello'')]"
    by (simp add: flow_body_def example_env_def)
  have len: "length [(''greet'', [(''name'', PStr ''hi'')]), (''bye'', []),
                     (''greet'', [(''name'', PStr ''hello'')])] = 3"
    by simp
  show ?thesis
    using dumps_duplicate_ids [OF h1 h2 h3 h4] by (simp only: fid body len)
qed

end
